theory Spec2Isabelle
  imports Main "HOL-Library.Word"
begin

unbundle bit_operations_syntax

section \<open>The startup command of the relay API (cmd/api.go)\<close>

text \<open>
  The file cmd/api.go declares the package-level flag variables, registers the flags of
  the \<^verbatim>\<open>api\<close> command in \<^verbatim>\<open>init\<close>, and gives the command's \<^verbatim>\<open>Run\<close> function: a single
  linear pass that resolves the genesis fork version, checks the beacon node, connects to
  Redis, loads the signing key, builds the options of the relay service, constructs the
  service and starts it. Every failure is reported with a fatal log call, which ends the
  process.

  The model makes the effects explicit: \<^verbatim>\<open>Run\<close> returns the list of the calls it made to
  the logger and to its collaborators, in order, together with the way the process ended.
  The collaborators (beacon client, Redis, hex decoding, BLS key validation, the relay
  service) are parameters: a record of functions giving what each call returns.
\<close>

subsection \<open>Values\<close>

text \<open>A Go \<^verbatim>\<open>error\<close> value is kept by its message; \<^verbatim>\<open>nil\<close> is \<open>None\<close> of \<open>error option\<close>.\<close>

type_synonym error = string
type_synonym bytes = "8 word list"
type_synonym int64 = "64 word"

text \<open>\<^verbatim>\<open>time.Duration\<close> is an \<^verbatim>\<open>int64\<close> count of nanoseconds; its arithmetic wraps.\<close>

type_synonym Duration = "64 word"

definition Millisecond :: Duration where
  "Millisecond = 1000000"

text \<open>Handles of the collaborators. What is inside them is not this file's business.\<close>

datatype beacon_client = ProdBeaconClient string
datatype redis_cache = RedisHandle nat
datatype datastore = ProdProposerDatastore redis_cache
datatype secret_key = BlsSecretKey nat
datatype relay_api = RelayService nat
datatype sync_status = SyncStatusResponse bool

subsection \<open>Package-level variables (lines 17-42)\<close>

text \<open>The variables the flags are bound to, as one record.\<close>

record flags =
  listenAddr :: string
  beaconNodeURI :: string
  redisURI :: string
  logJSON :: bool
  logLevel :: string
  useGenesisForkVersionMainnet :: bool
  useGenesisForkVersionKiln :: bool
  useGenesisForkVersionRopsten :: bool
  useGenesisForkVersionSepolia :: bool
  useCustomGenesisForkVersion :: string
  apiPprof :: bool
  secretKey :: string
  getHeaderWaitTimeMs :: int64

text \<open>
  Names that cmd/api.go uses and that are declared elsewhere in the repository: the
  \<^verbatim>\<open>Version\<close> variable of package \<^verbatim>\<open>cmd\<close> and the four fork-version constants of package
  \<^verbatim>\<open>common\<close>. They are parameters of the model.
\<close>

record common_consts =
  Version :: string
  GenesisForkVersionMainnet :: string
  GenesisForkVersionKiln :: string
  GenesisForkVersionRopsten :: string
  GenesisForkVersionSepolia :: string

subsection \<open>Environment and defaults (lines 19-24)\<close>

type_synonym environ = "string \<rightharpoonup> string"

text \<open>\<^verbatim>\<open>os.Getenv\<close>: the value of the variable, the empty string when it is not set.\<close>

definition os_Getenv :: "environ \<Rightarrow> string \<Rightarrow> string" where
  "os_Getenv env k = (case env k of None \<Rightarrow> [] | Some v \<Rightarrow> v)"

text \<open>
  Modelled from the spec: \<^verbatim>\<open>common.GetEnv\<close> is declared in package \<^verbatim>\<open>common\<close>, which is
  not among the sources. The spec gives the fallback order "environment variable default >
  hard-coded default": the value of the variable when it is set, the given default
  otherwise.
\<close>

definition common_GetEnv :: "environ \<Rightarrow> string \<Rightarrow> string \<Rightarrow> string" where
  "common_GetEnv env k d = (case env k of None \<Rightarrow> d | Some v \<Rightarrow> v)"

definition defaultListenAddr :: string where
  "defaultListenAddr = ''localhost:9062''"

definition defaultBeaconURI :: "environ \<Rightarrow> string" where
  "defaultBeaconURI env = common_GetEnv env ''BEACON_URI'' []"

definition defaultredisURI :: "environ \<Rightarrow> string" where
  "defaultredisURI env = common_GetEnv env ''REDIS_URI'' ''localhost:6379''"

definition defaultLogJSON :: "environ \<Rightarrow> bool" where
  "defaultLogJSON env = (os_Getenv env ''LOG_JSON'' \<noteq> [])"

definition defaultLogLevel :: "environ \<Rightarrow> string" where
  "defaultLogLevel env = common_GetEnv env ''LOG_LEVEL'' ''info''"

definition defaultGenesisForkVersion :: "environ \<Rightarrow> string" where
  "defaultGenesisForkVersion env = os_Getenv env ''GENESIS_FORK_VERSION''"

subsection \<open>Flag registration and parsing (lines 44-64)\<close>

text \<open>
  What the command line gives for each flag of the \<^verbatim>\<open>api\<close> command: \<open>None\<close> when the flag
  does not occur on the command line, \<open>Some v\<close> when it occurs with the (already typed)
  value \<open>v\<close>. A boolean flag written without a value is \<open>Some True\<close>. A command line
  with a value that does not parse to the type of its flag is rejected by the parser
  before anything else happens; the record holds the command lines that parse.
\<close>

record cmdline =
  arg_listen_addr :: "string option"
  arg_beacon_uri :: "string option"
  arg_redis_uri :: "string option"
  arg_pprof :: "bool option"
  arg_getheader_wait_ms :: "int64 option"
  arg_secret_key :: "string option"
  arg_json :: "bool option"
  arg_loglevel :: "string option"
  arg_mainnet :: "bool option"
  arg_kiln :: "bool option"
  arg_ropsten :: "bool option"
  arg_sepolia :: "bool option"
  arg_genesis_fork_version :: "string option"

text \<open>\<^verbatim>\<open>StringVar\<close>, \<^verbatim>\<open>BoolVar\<close>, \<^verbatim>\<open>Int64Var\<close>: the variable holds the flag's value when the
  flag is given and the registered default otherwise.\<close>

definition flagVar :: "'a option \<Rightarrow> 'a \<Rightarrow> 'a" where
  "flagVar given dflt = (case given of None \<Rightarrow> dflt | Some v \<Rightarrow> v)"

text \<open>The variables after parsing, from the registrations of \<^verbatim>\<open>init\<close> (lines 46-60).\<close>

definition init :: "environ \<Rightarrow> cmdline \<Rightarrow> flags" where
  "init env a =
    \<lparr> listenAddr = flagVar (arg_listen_addr a) defaultListenAddr,
      beaconNodeURI = flagVar (arg_beacon_uri a) (defaultBeaconURI env),
      redisURI = flagVar (arg_redis_uri a) (defaultredisURI env),
      logJSON = flagVar (arg_json a) (defaultLogJSON env),
      logLevel = flagVar (arg_loglevel a) (defaultLogLevel env),
      useGenesisForkVersionMainnet = flagVar (arg_mainnet a) False,
      useGenesisForkVersionKiln = flagVar (arg_kiln a) False,
      useGenesisForkVersionRopsten = flagVar (arg_ropsten a) False,
      useGenesisForkVersionSepolia = flagVar (arg_sepolia a) False,
      useCustomGenesisForkVersion =
        flagVar (arg_genesis_fork_version a) (defaultGenesisForkVersion env),
      apiPprof = flagVar (arg_pprof a) False,
      secretKey = flagVar (arg_secret_key a) [],
      getHeaderWaitTimeMs = flagVar (arg_getheader_wait_ms a) 500 \<rparr>"

text \<open>
  Modelled from the spec: \<^verbatim>\<open>MarkFlagsMutuallyExclusive\<close> (line 61) belongs to the cobra
  library, which is not among the sources. The spec says the five network-identity flags
  are mutually exclusive, "enforced by mutual exclusivity at parse time, not at use time",
  "by the flag-parsing layer". That layer is cobra, which looks at the flags that occur
  on the command line: a flag of the group counts as set when it was given, whatever its
  value, and a default (also one taken from the environment) does not count. The command
  is rejected when more than one flag of the group is set.
\<close>

definition isSet :: "'a option \<Rightarrow> bool" where
  "isSet given = (given \<noteq> None)"

definition exclusiveGroupSet :: "cmdline \<Rightarrow> bool list" where
  "exclusiveGroupSet a =
    [isSet (arg_mainnet a), isSet (arg_kiln a), isSet (arg_ropsten a),
     isSet (arg_sepolia a), isSet (arg_genesis_fork_version a)]"

definition countTrue :: "bool list \<Rightarrow> nat" where
  "countTrue bs = length (filter (\<lambda>b. b) bs)"

text \<open>
  Modelled from the spec: the check that cobra runs for the group marked on line 61, after
  the flags are parsed and before \<^verbatim>\<open>Run\<close> is called. It passes when at most one flag of the
  group was given.
\<close>

definition validateFlagGroups :: "cmdline \<Rightarrow> bool" where
  "validateFlagGroups a = (countTrue (exclusiveGroupSet a) \<le> 1)"

subsection \<open>Collaborators\<close>

text \<open>The options value handed to the service constructor (lines 119-128).\<close>

record RelayAPIOpts =
  Log :: string
  ListenAddr :: string
  BeaconClient :: beacon_client
  Datastore :: datastore
  GenesisForkVersionHex :: string
  PprofAPI :: bool
  GetHeaderWaitTime :: Duration
  SecretKey :: secret_key

text \<open>
  What each outside call returns. \<open>Inl e\<close> is a non-nil error. \<^verbatim>\<open>StartServer\<close> blocks: \<open>None\<close>
  is a call that never returns, \<open>Some r\<close> a call that returns the error value \<open>r\<close>, which
  may be nil.
\<close>

record deps =
  SyncStatus :: "beacon_client \<Rightarrow> error + sync_status"
  NewRedisCache :: "string \<Rightarrow> error + redis_cache"
  Decode :: "string \<Rightarrow> error + bytes"
  SecretKeyFromBytes :: "bytes \<Rightarrow> error + secret_key"
  NewRelayAPI :: "RelayAPIOpts \<Rightarrow> error + relay_api"
  StartServer :: "relay_api \<Rightarrow> error option option"

subsection \<open>Events and results\<close>

text \<open>
  One event for each call \<^verbatim>\<open>Run\<close> makes. \<open>Infof\<close> and \<open>Fatal\<close> keep the format string and its
  arguments; \<open>Fatal\<close> also keeps the error attached with \<^verbatim>\<open>WithError\<close>. \<open>FatalValue\<close> is the
  call \<^verbatim>\<open>log.Fatal(v)\<close> of line 138, whose argument is the value the server returned.
\<close>

datatype event =
    LogSetup bool string
  | Infof string "string list"
  | Fatal string "string list" "error option"
  | FatalValue "error option"
  | CallNewProdBeaconClient string
  | CallSyncStatus beacon_client
  | CallNewRedisCache string
  | CallNewProdProposerDatastore redis_cache
  | CallDecode string
  | CallSecretKeyFromBytes bytes
  | CallNewRelayAPI RelayAPIOpts
  | CallStartServer relay_api

text \<open>
  How the process ends: rejected by the flag parser before \<^verbatim>\<open>Run\<close> is called, ended by a
  fatal log call (which exits the process), or still inside \<^verbatim>\<open>StartServer\<close>.
\<close>

datatype outcome = UsageError | FatalExit | Serving

record result =
  trace :: "event list"
  outcome :: outcome

definition fatal :: "event list \<Rightarrow> string \<Rightarrow> string list \<Rightarrow> error option \<Rightarrow> result" where
  "fatal t msg args err = \<lparr> trace = t @ [Fatal msg args err], outcome = FatalExit \<rparr>"

subsection \<open>Run (lines 69-139)\<close>

text \<open>Lines 77-90: the chain that sets \<^verbatim>\<open>genesisForkVersionHex\<close>; \<open>None\<close> is the final
  \<^verbatim>\<open>else\<close>, which calls \<^verbatim>\<open>log.Fatal\<close>.\<close>

definition genesisForkVersionHex :: "common_consts \<Rightarrow> flags \<Rightarrow> string option" where
  "genesisForkVersionHex c g =
    (if useCustomGenesisForkVersion g \<noteq> [] then Some (useCustomGenesisForkVersion g)
     else if useGenesisForkVersionMainnet g then Some (GenesisForkVersionMainnet c)
     else if useGenesisForkVersionKiln g then Some (GenesisForkVersionKiln c)
     else if useGenesisForkVersionRopsten g then Some (GenesisForkVersionRopsten c)
     else if useGenesisForkVersionSepolia g then Some (GenesisForkVersionSepolia c)
     else None)"

text \<open>Lines 119-128.\<close>

definition opts ::
  "flags \<Rightarrow> beacon_client \<Rightarrow> datastore \<Rightarrow> string \<Rightarrow> secret_key \<Rightarrow> RelayAPIOpts" where
  "opts g beaconClient ds gfv sk =
    \<lparr> Log = ''cmd/api'',
      ListenAddr = listenAddr g,
      BeaconClient = beaconClient,
      Datastore = ds,
      GenesisForkVersionHex = gfv,
      PprofAPI = apiPprof g,
      GetHeaderWaitTime = getHeaderWaitTimeMs g * Millisecond,
      SecretKey = sk \<rparr>"

text \<open>Lines 130-138: construct the service and start it.\<close>

definition serve :: "deps \<Rightarrow> flags \<Rightarrow> event list \<Rightarrow> RelayAPIOpts \<Rightarrow> result" where
  "serve d g t os =
    (let t = t @ [CallNewRelayAPI os] in
     case NewRelayAPI d os of
       Inl err \<Rightarrow> fatal t ''failed to create service'' [] (Some err)
     | Inr srv \<Rightarrow>
        (let t = t @ [Infof ''Webserver starting on %s ...'' [listenAddr g],
                      CallStartServer srv] in
         case StartServer d srv of
           None \<Rightarrow> \<lparr> trace = t, outcome = Serving \<rparr>
         | Some r \<Rightarrow> \<lparr> trace = t @ [FatalValue r], outcome = FatalExit \<rparr>))"

text \<open>Lines 109-117: decode the private key.\<close>

definition loadKey ::
  "deps \<Rightarrow> flags \<Rightarrow> event list \<Rightarrow> (event list \<Rightarrow> secret_key \<Rightarrow> result) \<Rightarrow> result" where
  "loadKey d g t continue =
    (let t = t @ [CallDecode (secretKey g)] in
     case Decode d (secretKey g) of
       Inl err \<Rightarrow> fatal t ''incorrect secret key provided'' [] (Some err)
     | Inr envSkBytes \<Rightarrow>
        (let t = t @ [CallSecretKeyFromBytes envSkBytes] in
         case SecretKeyFromBytes d envSkBytes of
           Inl err \<Rightarrow> fatal t ''incorrect builder API secret key provided'' [] (Some err)
         | Inr sk \<Rightarrow> continue t sk))"

text \<open>The whole function, in the order of its statements.\<close>

definition Run :: "common_consts \<Rightarrow> deps \<Rightarrow> flags \<Rightarrow> result" where
  "Run c d g =
    (let t = [LogSetup (logJSON g) (logLevel g), Infof ''boost-relay %s'' [Version c]] in
     case genesisForkVersionHex c g of
       None \<Rightarrow>
         fatal t ''Please specify a genesis fork version (eg. -mainnet or -kiln or -ropsten or -genesis-fork-version flags)'' [] None
     | Some gfv \<Rightarrow>
        (let t = t @ [Infof ''Using genesis fork version: %s'' [gfv],
                      Infof ''Using beacon endpoint: %s'' [beaconNodeURI g],
                      CallNewProdBeaconClient (beaconNodeURI g)];
             beaconClient = ProdBeaconClient (beaconNodeURI g);
             t = t @ [CallSyncStatus beaconClient] in
         case SyncStatus d beaconClient of
           Inl err \<Rightarrow> fatal t ''Beacon node is syncing'' [] (Some err)
         | Inr _ \<Rightarrow>
            (let t = t @ [CallNewRedisCache (redisURI g)] in
             case NewRedisCache d (redisURI g) of
               Inl err \<Rightarrow>
                 fatal t ''Failed to connect to Redis at %s'' [redisURI g] (Some err)
             | Inr redis \<Rightarrow>
                (let t = t @ [Infof ''Connected to Redis at %s'' [redisURI g],
                              CallNewProdProposerDatastore redis];
                     ds = ProdProposerDatastore redis in
                 loadKey d g t
                   (\<lambda>t sk. serve d g t (opts g beaconClient ds gfv sk))))))"

text \<open>
  The command as the process runs it: the flags are parsed into the variables, the
  exclusive group is checked, and only then is \<^verbatim>\<open>Run\<close> called.
\<close>

definition startup :: "common_consts \<Rightarrow> deps \<Rightarrow> environ \<Rightarrow> cmdline \<Rightarrow> result" where
  "startup c d env a =
    (if validateFlagGroups a then Run c d (init env a)
     else \<lparr> trace = [], outcome = UsageError \<rparr>)"

subsection \<open>Hex decoding of the key string\<close>

text \<open>
  Modelled from the spec: \<^verbatim>\<open>hexutil.Decode\<close> (line 110) belongs to the go-ethereum
  library, which is not among the sources. The spec says the loader "decode[s] a
  hex-encoded string into raw bytes" and fails on "malformed hex encoding"; the flag table
  says the key is required. The library's function takes a string with the prefix 0x
  followed by an even number of hex digits and returns an error for anything else: for the
  empty string, for a missing prefix, for an odd number of digits and for a character that
  is not a hex digit.
\<close>

definition fromHexChar :: "char \<Rightarrow> 8 word option" where
  "fromHexChar ch =
    (let n = (of_char ch :: nat) in
     if 48 \<le> n \<and> n \<le> 57 then Some (of_nat (n - 48))
     else if 97 \<le> n \<and> n \<le> 102 then Some (of_nat (n - 97 + 10))
     else if 65 \<le> n \<and> n \<le> 70 then Some (of_nat (n - 65 + 10))
     else None)"

text \<open>
  Modelled from the spec: the digits are decoded in pairs, from the left; a character that
  is not a hex digit gives "invalid hex string", a single digit left at the end gives "hex
  string of odd length".
\<close>

fun hex_DecodeString :: "string \<Rightarrow> error + bytes" where
  "hex_DecodeString [] = Inr []"
| "hex_DecodeString [p] =
    (case fromHexChar p of
       None \<Rightarrow> Inl ''invalid hex string''
     | Some _ \<Rightarrow> Inl ''hex string of odd length'')"
| "hex_DecodeString (p # q # rest) =
    (case fromHexChar p of
       None \<Rightarrow> Inl ''invalid hex string''
     | Some a \<Rightarrow>
        (case fromHexChar q of
           None \<Rightarrow> Inl ''invalid hex string''
         | Some b \<Rightarrow>
            (case hex_DecodeString rest of
               Inl e \<Rightarrow> Inl e
             | Inr bs \<Rightarrow> Inr ((push_bit 4 a OR b) # bs))))"

text \<open>Modelled from the spec: the prefix test and the decoder of the key string.\<close>

definition has0xPrefix :: "string \<Rightarrow> bool" where
  "has0xPrefix input =
    (length input \<ge> 2 \<and> input ! 0 = CHR ''0'' \<and>
     (input ! 1 = CHR ''x'' \<or> input ! 1 = CHR ''X''))"

definition hexutil_Decode :: "string \<Rightarrow> error + bytes" where
  "hexutil_Decode input =
    (if length input = 0 then Inl ''empty hex string''
     else if \<not> has0xPrefix input then Inl ''hex string without 0x prefix''
     else hex_DecodeString (drop 2 input))"

subsection \<open>Reading a trace\<close>

text \<open>The sources of the network identity that are active once the flags are parsed.\<close>

definition activeSources :: "flags \<Rightarrow> nat" where
  "activeSources g =
    countTrue [useCustomGenesisForkVersion g \<noteq> [], useGenesisForkVersionMainnet g,
               useGenesisForkVersionKiln g, useGenesisForkVersionRopsten g,
               useGenesisForkVersionSepolia g]"

text \<open>Calls that reach another system: the beacon node, Redis, the relay service.\<close>

fun isDependencyCall :: "event \<Rightarrow> bool" where
  "isDependencyCall (CallNewProdBeaconClient _) = True"
| "isDependencyCall (CallSyncStatus _) = True"
| "isDependencyCall (CallNewRedisCache _) = True"
| "isDependencyCall (CallNewProdProposerDatastore _) = True"
| "isDependencyCall (CallNewRelayAPI _) = True"
| "isDependencyCall (CallStartServer _) = True"
| "isDependencyCall _ = False"

fun isSyncStatus :: "event \<Rightarrow> bool" where
  "isSyncStatus (CallSyncStatus _) = True"
| "isSyncStatus _ = False"

fun isNewRedisCache :: "event \<Rightarrow> bool" where
  "isNewRedisCache (CallNewRedisCache _) = True"
| "isNewRedisCache _ = False"

fun isSecretKeyFromBytes :: "event \<Rightarrow> bool" where
  "isSecretKeyFromBytes (CallSecretKeyFromBytes _) = True"
| "isSecretKeyFromBytes _ = False"

fun isNewRelayAPI :: "event \<Rightarrow> bool" where
  "isNewRelayAPI (CallNewRelayAPI _) = True"
| "isNewRelayAPI _ = False"

fun isStartServer :: "event \<Rightarrow> bool" where
  "isStartServer (CallStartServer _) = True"
| "isStartServer _ = False"

text \<open>The options values that were passed to the service constructor.\<close>

fun optsPassed :: "event list \<Rightarrow> RelayAPIOpts list" where
  "optsPassed [] = []"
| "optsPassed (CallNewRelayAPI os # t) = os # optsPassed t"
| "optsPassed (_ # t) = optsPassed t"

subsection \<open>Concrete runs\<close>

text \<open>
  Stand-ins for the collaborators and inputs, for running the model on concrete cases.
  With \<open>okDeps\<close> the beacon node answers, Redis connects, the key string is decoded by
  \<open>hexutil_Decode\<close>, a key of 32 bytes is accepted, the service is constructed and the
  server returns nil at once. \<open>servingDeps\<close> is the same with a server that keeps serving,
  \<open>syncingDeps\<close> the same with a beacon node that reports an error.
\<close>

definition okDeps :: deps where
  "okDeps =
    \<lparr> SyncStatus = (\<lambda>_. Inr (SyncStatusResponse False)),
      NewRedisCache = (\<lambda>_. Inr (RedisHandle 0)),
      Decode = hexutil_Decode,
      SecretKeyFromBytes =
        (\<lambda>b. if length b = 32 then Inr (BlsSecretKey 0) else Inl ''invalid key length''),
      NewRelayAPI = (\<lambda>_. Inr (RelayService 0)),
      StartServer = (\<lambda>_. Some None) \<rparr>"

definition servingDeps :: deps where
  "servingDeps = okDeps \<lparr> StartServer := (\<lambda>_. None) \<rparr>"

definition syncingDeps :: deps where
  "syncingDeps = okDeps \<lparr> SyncStatus := (\<lambda>_. Inl ''still syncing'') \<rparr>"

definition testConsts :: common_consts where
  "testConsts =
    \<lparr> Version = ''dev'',
      GenesisForkVersionMainnet = ''0x00000000'',
      GenesisForkVersionKiln = ''0x70000069'',
      GenesisForkVersionRopsten = ''0x80000069'',
      GenesisForkVersionSepolia = ''0x90000069'' \<rparr>"

definition noArgs :: cmdline where
  "noArgs =
    \<lparr> arg_listen_addr = None, arg_beacon_uri = None, arg_redis_uri = None,
      arg_pprof = None, arg_getheader_wait_ms = None, arg_secret_key = None,
      arg_json = None, arg_loglevel = None, arg_mainnet = None, arg_kiln = None,
      arg_ropsten = None, arg_sepolia = None, arg_genesis_fork_version = None \<rparr>"

definition validKeyHex :: string where
  "validKeyHex = ''0x2fc12ae741f29701f8e30f5de6350766c020cb80768a0ff01e6838ffd2431e11''"

text \<open>\<^verbatim>\<open>--mainnet --secret-key <32 bytes of hex>\<close>\<close>

definition argsMainnet :: cmdline where
  "argsMainnet = noArgs \<lparr> arg_mainnet := Some True, arg_secret_key := Some validKeyHex \<rparr>"

text \<open>\<^verbatim>\<open>--mainnet\<close> and no key.\<close>

definition argsNoKey :: cmdline where
  "argsNoKey = noArgs \<lparr> arg_mainnet := Some True \<rparr>"

text \<open>\<^verbatim>\<open>--mainnet --secret-key not-hex\<close>\<close>

definition argsNotHex :: cmdline where
  "argsNotHex = noArgs \<lparr> arg_mainnet := Some True, arg_secret_key := Some ''not-hex'' \<rparr>"

text \<open>\<^verbatim>\<open>--mainnet --secret-key 0x01\<close>: hex of a single byte.\<close>

definition argsShortKey :: cmdline where
  "argsShortKey = noArgs \<lparr> arg_mainnet := Some True, arg_secret_key := Some ''0x01'' \<rparr>"

text \<open>\<^verbatim>\<open>--mainnet --kiln\<close>\<close>

definition argsTwoNamed :: cmdline where
  "argsTwoNamed = noArgs \<lparr> arg_mainnet := Some True, arg_kiln := Some True \<rparr>"

text \<open>\<^verbatim>\<open>--mainnet --secret-key <key> --getheader-wait-ms 9223372036855\<close>\<close>

definition argsLongWait :: cmdline where
  "argsLongWait = argsMainnet \<lparr> arg_getheader_wait_ms := Some 9223372036855 \<rparr>"

text \<open>\<^verbatim>\<open>--secret-key <key>\<close> and no network flag.\<close>

definition argsKeyOnly :: cmdline where
  "argsKeyOnly = noArgs \<lparr> arg_secret_key := Some validKeyHex \<rparr>"

text \<open>The custom override given through the environment.\<close>

definition envCustom :: environ where
  "envCustom = [''GENESIS_FORK_VERSION'' \<mapsto> ''0x12345678'']"

definition envNotHex :: environ where
  "envNotHex = [''GENESIS_FORK_VERSION'' \<mapsto> ''not hex'']"

section \<open>Properties\<close>

subsection \<open>Auxiliary facts\<close>

lemma optsPassed_append: "optsPassed (xs @ ys) = optsPassed xs @ optsPassed ys"
  by (induction xs rule: optsPassed.induct) simp_all

lemma serve_optsPassed:
  "optsPassed (trace (serve d g t os)) = optsPassed t @ [os]"
  by (simp add: serve_def fatal_def Let_def optsPassed_append
      split: sum.splits option.splits)

lemma loadKey_optsPassed:
  assumes "os \<in> set (optsPassed (trace (loadKey d g t (\<lambda>t sk. serve d g t (f sk)))))"
  shows "os \<in> set (optsPassed t) \<or> (\<exists>sk. os = f sk)"
  using assms
  by (auto simp add: loadKey_def fatal_def Let_def optsPassed_append serve_optsPassed
      split: sum.splits)

text \<open>Every options value that reaches the constructor was built by lines 119-128 from
  the resolved fork version.\<close>

lemma Run_optsPassed:
  assumes "os \<in> set (optsPassed (trace (Run c d g)))"
  shows "\<exists>gfv redis sk. genesisForkVersionHex c g = Some gfv \<and>
           os = opts g (ProdBeaconClient (beaconNodeURI g)) (ProdProposerDatastore redis) gfv sk"
  using assms
  by (auto simp add: Run_def fatal_def Let_def optsPassed_append
      split: option.splits sum.splits dest!: loadKey_optsPassed)

lemma Run_logs_identity:
  assumes "genesisForkVersionHex c g = Some gfv"
  shows "Infof ''Using genesis fork version: %s'' [gfv] \<in> set (trace (Run c d g))"
  using assms
  by (simp add: Run_def loadKey_def serve_def fatal_def Let_def
      split: option.splits sum.splits)

text \<open>The product of line 126 does not wrap when the milliseconds fit.\<close>

lemma sint_times_Millisecond:
  fixes n :: int64
  assumes "- 9223372036854 \<le> sint n" and "sint n \<le> 9223372036854"
  shows "sint (n * Millisecond) = sint n * 1000000"
proof -
  have "sint (n * Millisecond) = signed_take_bit 63 (sint n * 1000000)"
    by (simp add: Millisecond_def sint_word_ariths)
  also have "\<dots> = sint n * 1000000"
    using assms by (intro signed_take_bit_int_eq_self) simp_all
  finally show ?thesis .
qed

lemmas Run_defs = Run_def loadKey_def serve_def fatal_def Let_def

lemmas concrete_defs =
  init_def flagVar_def defaultListenAddr_def defaultBeaconURI_def defaultredisURI_def
  defaultLogJSON_def defaultLogLevel_def defaultGenesisForkVersion_def os_Getenv_def
  common_GetEnv_def okDeps_def servingDeps_def syncingDeps_def testConsts_def noArgs_def
  validKeyHex_def argsMainnet_def argsNoKey_def argsNotHex_def argsShortKey_def
  argsTwoNamed_def argsLongWait_def argsKeyOnly_def envCustom_def envNotHex_def
  genesisForkVersionHex_def hexutil_Decode_def has0xPrefix_def fromHexChar_def opts_def
  validateFlagGroups_def exclusiveGroupSet_def isSet_def countTrue_def activeSources_def
  startup_def

lemma hexutil_Decode_empty: "hexutil_Decode [] = Inl ''empty hex string''"
  by (simp add: hexutil_Decode_def)

lemma Run_not_UsageError: "outcome (Run c d g) \<noteq> UsageError"
  by (simp add: Run_defs split: option.splits sum.splits)

lemma init_custom:
  assumes "arg_genesis_fork_version a = Some s
           \<or> (arg_genesis_fork_version a = None \<and> env ''GENESIS_FORK_VERSION'' = Some s)"
  shows "useCustomGenesisForkVersion (init env a) = s"
  using assms
  by (auto simp add: init_def flagVar_def defaultGenesisForkVersion_def os_Getenv_def)

lemma init_wait:
  assumes "arg_getheader_wait_ms a = Some n \<or> (arg_getheader_wait_ms a = None \<and> n = 500)"
  shows "getHeaderWaitTimeMs (init env a) = n"
  using assms by (auto simp add: init_def flagVar_def)

lemma activeSources_resolves:
  assumes "1 \<le> activeSources g"
  shows "\<exists>gfv. genesisForkVersionHex c g = Some gfv"
  using assms
  by (auto simp add: activeSources_def countTrue_def genesisForkVersionHex_def
      split: if_splits)

lemma Run_reaches_SyncStatus:
  assumes "genesisForkVersionHex c g = Some gfv"
  shows "filter isSyncStatus (trace (Run c d g)) =
           [CallSyncStatus (ProdBeaconClient (beaconNodeURI g))]"
  using assms by (simp add: Run_defs split: option.splits sum.splits)

subsection \<open>Network identity\<close>

text \<open>
  Claim C1, as the code has it. The claim says that startup fails before any network I/O
  whenever more than one network-identity source is active after resolution. The code
  rejects the command only when more than one of the five flags is given on the command
  line; then \<^verbatim>\<open>Run\<close> is not called and nothing has been done. When at most one of them is
  given and at least one source is active after resolution (also more than one: the custom
  override from the environment next to a named flag), the identity is resolved and the
  run goes on to the sync-status query.
\<close>

theorem exclusive_flags_rejected_at_parse:
  "(1 < countTrue (exclusiveGroupSet a) \<longrightarrow>
      startup c d env a = \<lparr> trace = [], outcome = UsageError \<rparr>)
   \<and> (countTrue (exclusiveGroupSet a) \<le> 1 \<and> 1 \<le> activeSources (init env a) \<longrightarrow>
        (\<exists>gfv. genesisForkVersionHex c (init env a) = Some gfv)
        \<and> filter isSyncStatus (trace (startup c d env a)) =
            [CallSyncStatus (ProdBeaconClient (beaconNodeURI (init env a)))])"
proof -
  have "filter isSyncStatus (trace (startup c d env a)) =
            [CallSyncStatus (ProdBeaconClient (beaconNodeURI (init env a)))]"
    if "countTrue (exclusiveGroupSet a) \<le> 1" "1 \<le> activeSources (init env a)"
  proof -
    from activeSources_resolves [OF that(2)]
    obtain gfv where "genesisForkVersionHex c (init env a) = Some gfv" by blast
    from Run_reaches_SyncStatus [OF this] that(1) show ?thesis
      by (simp add: startup_def validateFlagGroups_def)
  qed
  then show ?thesis
    using activeSources_resolves [of "init env a" c]
    by (auto simp add: startup_def validateFlagGroups_def)
qed

text \<open>
  Claim C1, witness: \<^verbatim>\<open>--mainnet --kiln\<close> is rejected with nothing done; \<^verbatim>\<open>--mainnet\<close> with
  the override in the environment reaches the sync-status query.
\<close>

theorem exclusive_flags_rejected_at_parse_witness:
  "1 < countTrue (exclusiveGroupSet argsTwoNamed)
   \<and> startup testConsts okDeps Map.empty argsTwoNamed = \<lparr> trace = [], outcome = UsageError \<rparr>
   \<and> countTrue (exclusiveGroupSet argsMainnet) \<le> 1
   \<and> 1 \<le> activeSources (init envCustom argsMainnet)
   \<and> filter isSyncStatus (trace (startup testConsts okDeps envCustom argsMainnet)) =
       [CallSyncStatus (ProdBeaconClient (beaconNodeURI (init envCustom argsMainnet)))]"
proof -
  have h1: "1 < countTrue (exclusiveGroupSet argsTwoNamed)"
    by (simp add: concrete_defs)
  have h2: "countTrue (exclusiveGroupSet argsMainnet) \<le> 1"
    by (simp add: concrete_defs)
  have h3: "1 \<le> activeSources (init envCustom argsMainnet)"
    by (simp add: concrete_defs)
  from exclusive_flags_rejected_at_parse
      [where a = argsTwoNamed and c = testConsts and d = okDeps and env = Map.empty]
    exclusive_flags_rejected_at_parse
      [where a = argsMainnet and c = testConsts and d = okDeps and env = envCustom]
    h1 h2 h3
  show ?thesis by blast
qed

text \<open>
  Claim C1, counterexample: with the custom override in the environment and \<^verbatim>\<open>--mainnet\<close>
  on the command line two sources are active after resolution, and startup does not fail:
  the beacon node is queried, Redis is connected and the server is serving.
\<close>

theorem two_active_sources_counterexample:
  "1 < activeSources (init envCustom argsMainnet)
   \<and> outcome (startup testConsts servingDeps envCustom argsMainnet) = Serving
   \<and> CallSyncStatus (ProdBeaconClient [])
       \<in> set (trace (startup testConsts servingDeps envCustom argsMainnet))
   \<and> CallNewRedisCache ''localhost:6379''
       \<in> set (trace (startup testConsts servingDeps envCustom argsMainnet))"
  by (simp add: concrete_defs Run_defs)

text \<open>
  Claim C2. When the custom override is a non-empty string and at least one of the named
  network flags is set, the resolved genesis fork version is the override's value: it is
  what lines 77-90 select, what line 91 logs, and what every options value handed to the
  service constructor carries.
\<close>

theorem custom_override_precedence:
  assumes "useCustomGenesisForkVersion g \<noteq> []"
    and "useGenesisForkVersionMainnet g \<or> useGenesisForkVersionKiln g
         \<or> useGenesisForkVersionRopsten g \<or> useGenesisForkVersionSepolia g"
  shows "genesisForkVersionHex c g = Some (useCustomGenesisForkVersion g)
         \<and> Infof ''Using genesis fork version: %s'' [useCustomGenesisForkVersion g]
             \<in> set (trace (Run c d g))
         \<and> (\<forall>os \<in> set (optsPassed (trace (Run c d g))).
               GenesisForkVersionHex os = useCustomGenesisForkVersion g)"
proof -
  have r: "genesisForkVersionHex c g = Some (useCustomGenesisForkVersion g)"
    using assms(1) by (simp add: genesisForkVersionHex_def)
  have "GenesisForkVersionHex os = useCustomGenesisForkVersion g"
    if "os \<in> set (optsPassed (trace (Run c d g)))" for os
    using Run_optsPassed [OF that] r by (auto simp add: opts_def)
  with r Run_logs_identity [OF r] show ?thesis by blast
qed

text \<open>
  Claim C2, witness: the override 0x12345678 from the environment together with
  \<^verbatim>\<open>--mainnet\<close>; the mainnet constant 0x00000000 is not what is recorded.
\<close>

theorem custom_override_precedence_witness:
  "useCustomGenesisForkVersion (init envCustom argsMainnet) \<noteq> []
   \<and> useGenesisForkVersionMainnet (init envCustom argsMainnet)
   \<and> genesisForkVersionHex testConsts (init envCustom argsMainnet) = Some ''0x12345678''
   \<and> GenesisForkVersionMainnet testConsts = ''0x00000000''
   \<and> Infof ''Using genesis fork version: %s'' [''0x12345678'']
       \<in> set (trace (Run testConsts okDeps (init envCustom argsMainnet)))
   \<and> map GenesisForkVersionHex
        (optsPassed (trace (Run testConsts okDeps (init envCustom argsMainnet))))
       = [''0x12345678'']"
proof -
  have v: "useCustomGenesisForkVersion (init envCustom argsMainnet) = ''0x12345678''"
    by (simp add: concrete_defs)
  have h1: "useCustomGenesisForkVersion (init envCustom argsMainnet) \<noteq> []"
    by (simp add: v)
  have h2: "useGenesisForkVersionMainnet (init envCustom argsMainnet)"
    by (simp add: concrete_defs)
  have m: "GenesisForkVersionMainnet testConsts = ''0x00000000''"
    by (simp add: testConsts_def)
  have o: "map GenesisForkVersionHex
        (optsPassed (trace (Run testConsts okDeps (init envCustom argsMainnet))))
       = [''0x12345678'']"
    by (simp add: concrete_defs Run_defs)
  from custom_override_precedence
      [where g = "init envCustom argsMainnet" and c = testConsts and d = okDeps] h1 h2
  have "genesisForkVersionHex testConsts (init envCustom argsMainnet) = Some ''0x12345678''
    \<and> Infof ''Using genesis fork version: %s'' [''0x12345678'']
       \<in> set (trace (Run testConsts okDeps (init envCustom argsMainnet)))"
    by (simp add: v)
  with h1 h2 m o show ?thesis by blast
qed

text \<open>
  Claim C3. When the custom override is empty and none of the four named network flags is
  set, \<^verbatim>\<open>Run\<close> sets up logging, logs the version and exits with the fatal message of line
  89: no beacon client is created or queried, no Redis connection is attempted and no other
  collaborator is called.
\<close>

theorem no_identity_fatal_before_dependencies:
  assumes "useCustomGenesisForkVersion g = []"
    and "\<not> useGenesisForkVersionMainnet g" and "\<not> useGenesisForkVersionKiln g"
    and "\<not> useGenesisForkVersionRopsten g" and "\<not> useGenesisForkVersionSepolia g"
  shows "Run c d g =
           \<lparr> trace = [LogSetup (logJSON g) (logLevel g), Infof ''boost-relay %s'' [Version c],
                      Fatal ''Please specify a genesis fork version (eg. -mainnet or -kiln or -ropsten or -genesis-fork-version flags)'' [] None],
             outcome = FatalExit \<rparr>
         \<and> filter isDependencyCall (trace (Run c d g)) = []"
  using assms by (simp add: Run_def genesisForkVersionHex_def fatal_def)

text \<open>Claim C3, witness: only \<^verbatim>\<open>--secret-key\<close> on the command line, empty environment.\<close>

theorem no_identity_fatal_before_dependencies_witness:
  "useCustomGenesisForkVersion (init Map.empty argsKeyOnly) = []
   \<and> \<not> useGenesisForkVersionMainnet (init Map.empty argsKeyOnly)
   \<and> \<not> useGenesisForkVersionKiln (init Map.empty argsKeyOnly)
   \<and> \<not> useGenesisForkVersionRopsten (init Map.empty argsKeyOnly)
   \<and> \<not> useGenesisForkVersionSepolia (init Map.empty argsKeyOnly)
   \<and> outcome (Run testConsts okDeps (init Map.empty argsKeyOnly)) = FatalExit
   \<and> filter isDependencyCall (trace (Run testConsts okDeps (init Map.empty argsKeyOnly))) = []"
proof -
  have h: "useCustomGenesisForkVersion (init Map.empty argsKeyOnly) = []"
    "\<not> useGenesisForkVersionMainnet (init Map.empty argsKeyOnly)"
    "\<not> useGenesisForkVersionKiln (init Map.empty argsKeyOnly)"
    "\<not> useGenesisForkVersionRopsten (init Map.empty argsKeyOnly)"
    "\<not> useGenesisForkVersionSepolia (init Map.empty argsKeyOnly)"
    by (simp_all add: concrete_defs)
  from no_identity_fatal_before_dependencies [OF h, where c = testConsts and d = okDeps] h
  show ?thesis by simp
qed

text \<open>
  Claim C10. The custom override is taken as it is. Whatever non-empty string is given
  with \<^verbatim>\<open>--genesis-fork-version\<close>, or in \<^verbatim>\<open>GENESIS_FORK_VERSION\<close> when the flag is not given,
  is the resolved genesis fork version, logged by line 91 and carried by every options
  value handed to the service constructor. Nothing is asked of the string.
\<close>

theorem custom_override_verbatim:
  assumes "s \<noteq> []"
    and "arg_genesis_fork_version a = Some s
         \<or> (arg_genesis_fork_version a = None \<and> env ''GENESIS_FORK_VERSION'' = Some s)"
  shows "genesisForkVersionHex c (init env a) = Some s
    \<and> Infof ''Using genesis fork version: %s'' [s] \<in> set (trace (Run c d (init env a)))
    \<and> (\<forall>os \<in> set (optsPassed (trace (Run c d (init env a)))).
          GenesisForkVersionHex os = s)"
proof -
  have r: "genesisForkVersionHex c (init env a) = Some s"
    using assms(1) init_custom [of a s env] assms(2)
    by (simp add: genesisForkVersionHex_def)
  have "GenesisForkVersionHex os = s"
    if "os \<in> set (optsPassed (trace (Run c d (init env a))))" for os
    using Run_optsPassed [OF that] r by (auto simp add: opts_def)
  with r Run_logs_identity [OF r] show ?thesis by blast
qed

text \<open>
  Claim C10, witness: the override "not hex" in the environment, which is not valid hex,
  reaches the service constructor unchanged.
\<close>

theorem custom_override_verbatim_witness:
  "''not hex'' \<noteq> []
   \<and> arg_genesis_fork_version argsKeyOnly = None
   \<and> envNotHex ''GENESIS_FORK_VERSION'' = Some ''not hex''
   \<and> hexutil_Decode ''not hex'' = Inl ''hex string without 0x prefix''
   \<and> genesisForkVersionHex testConsts (init envNotHex argsKeyOnly) = Some ''not hex''
   \<and> map GenesisForkVersionHex
        (optsPassed (trace (Run testConsts okDeps (init envNotHex argsKeyOnly))))
       = [''not hex'']"
proof -
  have h1: "''not hex'' \<noteq> []" by simp
  have h2: "arg_genesis_fork_version argsKeyOnly = None
            \<and> envNotHex ''GENESIS_FORK_VERSION'' = Some ''not hex''"
    by (simp add: concrete_defs)
  have x: "hexutil_Decode ''not hex'' = Inl ''hex string without 0x prefix''"
    by (simp add: hexutil_Decode_def has0xPrefix_def)
  have o: "map GenesisForkVersionHex
        (optsPassed (trace (Run testConsts okDeps (init envNotHex argsKeyOnly))))
       = [''not hex'']"
    by (simp add: concrete_defs Run_defs)
  from custom_override_verbatim
      [where s = "''not hex''" and a = argsKeyOnly and env = envNotHex and c = testConsts
        and d = okDeps]
    h1 h2
  have "genesisForkVersionHex testConsts (init envNotHex argsKeyOnly) = Some ''not hex''"
    by blast
  with h1 h2 x o show ?thesis by blast
qed

subsection \<open>Beacon sync check\<close>

text \<open>
  Claim C4. In a run that reaches the sync-status query (the identity is resolved) and in
  which the query returns an error, the fatal call of line 98 is the next thing that
  happens and ends the process: no Redis connection is attempted, and the query was made
  exactly once.
\<close>

theorem sync_error_aborts_before_redis:
  assumes "genesisForkVersionHex c g = Some gfv"
    and "SyncStatus d (ProdBeaconClient (beaconNodeURI g)) = Inl err"
  shows "Run c d g =
           \<lparr> trace = [LogSetup (logJSON g) (logLevel g), Infof ''boost-relay %s'' [Version c],
                      Infof ''Using genesis fork version: %s'' [gfv],
                      Infof ''Using beacon endpoint: %s'' [beaconNodeURI g],
                      CallNewProdBeaconClient (beaconNodeURI g),
                      CallSyncStatus (ProdBeaconClient (beaconNodeURI g)),
                      Fatal ''Beacon node is syncing'' [] (Some err)],
             outcome = FatalExit \<rparr>
         \<and> filter isNewRedisCache (trace (Run c d g)) = []
         \<and> length (filter isSyncStatus (trace (Run c d g))) = 1"
  using assms by (simp add: Run_defs)

text \<open>Claim C4, witness: \<^verbatim>\<open>--mainnet\<close> against a beacon node that is still syncing.\<close>

theorem sync_error_aborts_before_redis_witness:
  "genesisForkVersionHex testConsts (init Map.empty argsMainnet) = Some ''0x00000000''
   \<and> SyncStatus syncingDeps (ProdBeaconClient (beaconNodeURI (init Map.empty argsMainnet)))
       = Inl ''still syncing''
   \<and> outcome (Run testConsts syncingDeps (init Map.empty argsMainnet)) = FatalExit
   \<and> filter isNewRedisCache (trace (Run testConsts syncingDeps (init Map.empty argsMainnet)))
       = []
   \<and> length (filter isSyncStatus
        (trace (Run testConsts syncingDeps (init Map.empty argsMainnet)))) = 1"
proof -
  have h1: "genesisForkVersionHex testConsts (init Map.empty argsMainnet)
              = Some ''0x00000000''"
    by (simp add: concrete_defs)
  have h2: "SyncStatus syncingDeps
              (ProdBeaconClient (beaconNodeURI (init Map.empty argsMainnet)))
            = Inl ''still syncing''"
    by (simp add: syncingDeps_def okDeps_def)
  from sync_error_aborts_before_redis [OF h1 h2] h1 h2 show ?thesis by simp
qed

subsection \<open>Key loading\<close>

text \<open>
  Claim C5. When decoding the secret-key string gives an error, no run attempts to
  construct the service, and every run ends in a fatal exit. In a run where the identity
  is resolved, the sync-status query succeeded and Redis connected, the run ends at the
  decode step with the message of line 112, after the sync check and the Redis connection.
  And a run can only end with that message when the sync check and the Redis connection
  have succeeded.
\<close>

theorem decode_error_no_service_construction:
  assumes "Decode d (secretKey g) = Inl err"
  shows "filter isNewRelayAPI (trace (Run c d g)) = []
         \<and> outcome (Run c d g) = FatalExit
         \<and> (genesisForkVersionHex c g = Some gfv
              \<and> SyncStatus d (ProdBeaconClient (beaconNodeURI g)) = Inr st
              \<and> NewRedisCache d (redisURI g) = Inr redis \<longrightarrow>
            trace (Run c d g) =
              [LogSetup (logJSON g) (logLevel g), Infof ''boost-relay %s'' [Version c],
               Infof ''Using genesis fork version: %s'' [gfv],
               Infof ''Using beacon endpoint: %s'' [beaconNodeURI g],
               CallNewProdBeaconClient (beaconNodeURI g),
               CallSyncStatus (ProdBeaconClient (beaconNodeURI g)),
               CallNewRedisCache (redisURI g),
               Infof ''Connected to Redis at %s'' [redisURI g],
               CallNewProdProposerDatastore redis,
               CallDecode (secretKey g),
               Fatal ''incorrect secret key provided'' [] (Some err)])
         \<and> (last (trace (Run c d g)) = Fatal ''incorrect secret key provided'' [] (Some err)
              \<longrightarrow> \<not> isl (SyncStatus d (ProdBeaconClient (beaconNodeURI g)))
                  \<and> \<not> isl (NewRedisCache d (redisURI g)))"
  using assms by (simp add: Run_defs split: option.splits sum.splits)

text \<open>Claim C5, witness: \<^verbatim>\<open>--mainnet --secret-key not-hex\<close> with every collaborator up.\<close>

theorem decode_error_no_service_construction_witness:
  "Decode okDeps (secretKey (init Map.empty argsNotHex)) = Inl ''hex string without 0x prefix''
   \<and> filter isNewRelayAPI (trace (Run testConsts okDeps (init Map.empty argsNotHex))) = []
   \<and> outcome (Run testConsts okDeps (init Map.empty argsNotHex)) = FatalExit
   \<and> last (trace (Run testConsts okDeps (init Map.empty argsNotHex)))
       = Fatal ''incorrect secret key provided'' [] (Some ''hex string without 0x prefix'')
   \<and> filter isDependencyCall (trace (Run testConsts okDeps (init Map.empty argsNotHex)))
       = [CallNewProdBeaconClient [], CallSyncStatus (ProdBeaconClient []),
          CallNewRedisCache ''localhost:6379'',
          CallNewProdProposerDatastore (RedisHandle 0)]"
proof -
  have h: "Decode okDeps (secretKey (init Map.empty argsNotHex))
             = Inl ''hex string without 0x prefix''"
    by (simp add: concrete_defs)
  have t: "last (trace (Run testConsts okDeps (init Map.empty argsNotHex)))
       = Fatal ''incorrect secret key provided'' [] (Some ''hex string without 0x prefix'')
   \<and> filter isDependencyCall (trace (Run testConsts okDeps (init Map.empty argsNotHex)))
       = [CallNewProdBeaconClient [], CallSyncStatus (ProdBeaconClient []),
          CallNewRedisCache ''localhost:6379'',
          CallNewProdProposerDatastore (RedisHandle 0)]"
    by (simp add: concrete_defs Run_defs)
  from decode_error_no_service_construction
         [OF h, where c = testConsts and gfv = "[]" and st = "SyncStatusResponse False"
           and redis = "RedisHandle 0"]
  have "filter isNewRelayAPI (trace (Run testConsts okDeps (init Map.empty argsNotHex))) = []
   \<and> outcome (Run testConsts okDeps (init Map.empty argsNotHex)) = FatalExit"
    by blast
  with h t show ?thesis by blast
qed

text \<open>
  Claim C6. Key loading can fail at two places, each with a fatal exit and a message of
  its own, in a run that has reached it (identity resolved, sync check and Redis
  connection succeeded): (a) the hex decoding fails, reported by line 112, and then the
  BLS validation is never called; (b) the decoding succeeds and the BLS validation of the
  decoded bytes fails, reported by line 116, and then the service is not constructed.
  When both succeed the key stage does not fail: the constructor is called with the key.
\<close>

theorem key_loading_two_failure_points:
  assumes "genesisForkVersionHex c g = Some gfv"
    and "SyncStatus d (ProdBeaconClient (beaconNodeURI g)) = Inr st"
    and "NewRedisCache d (redisURI g) = Inr redis"
  shows "(\<forall>err. Decode d (secretKey g) = Inl err \<longrightarrow>
            outcome (Run c d g) = FatalExit
            \<and> last (trace (Run c d g)) = Fatal ''incorrect secret key provided'' [] (Some err)
            \<and> filter isSecretKeyFromBytes (trace (Run c d g)) = [])
         \<and> (\<forall>b err. Decode d (secretKey g) = Inr b \<and> SecretKeyFromBytes d b = Inl err \<longrightarrow>
            outcome (Run c d g) = FatalExit
            \<and> last (trace (Run c d g)) =
                Fatal ''incorrect builder API secret key provided'' [] (Some err)
            \<and> filter isSecretKeyFromBytes (trace (Run c d g)) = [CallSecretKeyFromBytes b]
            \<and> filter isNewRelayAPI (trace (Run c d g)) = [])
         \<and> (\<forall>b sk. Decode d (secretKey g) = Inr b \<and> SecretKeyFromBytes d b = Inr sk \<longrightarrow>
            optsPassed (trace (Run c d g)) =
              [opts g (ProdBeaconClient (beaconNodeURI g)) (ProdProposerDatastore redis) gfv sk])
         \<and> ''incorrect secret key provided'' \<noteq> ''incorrect builder API secret key provided''"
  using assms
  by (simp add: Run_defs optsPassed_append split: option.splits sum.splits)

text \<open>
  Claim C6, witness: with \<^verbatim>\<open>--secret-key not-hex\<close> the run fails at (a); with
  \<^verbatim>\<open>--secret-key 0x01\<close> the string decodes to one byte and the run fails at (b).
\<close>

theorem key_loading_two_failure_points_witness:
  "genesisForkVersionHex testConsts (init Map.empty argsNotHex) = Some ''0x00000000''
   \<and> SyncStatus okDeps (ProdBeaconClient (beaconNodeURI (init Map.empty argsNotHex)))
       = Inr (SyncStatusResponse False)
   \<and> NewRedisCache okDeps (redisURI (init Map.empty argsNotHex)) = Inr (RedisHandle 0)
   \<and> Decode okDeps (secretKey (init Map.empty argsNotHex))
       = Inl ''hex string without 0x prefix''
   \<and> last (trace (Run testConsts okDeps (init Map.empty argsNotHex)))
       = Fatal ''incorrect secret key provided'' [] (Some ''hex string without 0x prefix'')
   \<and> filter isSecretKeyFromBytes (trace (Run testConsts okDeps (init Map.empty argsNotHex)))
       = []
   \<and> genesisForkVersionHex testConsts (init Map.empty argsShortKey) = Some ''0x00000000''
   \<and> SyncStatus okDeps (ProdBeaconClient (beaconNodeURI (init Map.empty argsShortKey)))
       = Inr (SyncStatusResponse False)
   \<and> NewRedisCache okDeps (redisURI (init Map.empty argsShortKey)) = Inr (RedisHandle 0)
   \<and> Decode okDeps (secretKey (init Map.empty argsShortKey)) = Inr [1]
   \<and> SecretKeyFromBytes okDeps [1] = Inl ''invalid key length''
   \<and> last (trace (Run testConsts okDeps (init Map.empty argsShortKey)))
       = Fatal ''incorrect builder API secret key provided'' [] (Some ''invalid key length'')
   \<and> filter isNewRelayAPI (trace (Run testConsts okDeps (init Map.empty argsShortKey))) = []"
proof -
  have a: "genesisForkVersionHex testConsts (init Map.empty argsNotHex) = Some ''0x00000000''"
    "SyncStatus okDeps (ProdBeaconClient (beaconNodeURI (init Map.empty argsNotHex)))
       = Inr (SyncStatusResponse False)"
    "NewRedisCache okDeps (redisURI (init Map.empty argsNotHex)) = Inr (RedisHandle 0)"
    by (simp_all add: concrete_defs)
  have a': "Decode okDeps (secretKey (init Map.empty argsNotHex))
       = Inl ''hex string without 0x prefix''"
    by (simp add: concrete_defs)
  have b: "genesisForkVersionHex testConsts (init Map.empty argsShortKey) = Some ''0x00000000''"
    "SyncStatus okDeps (ProdBeaconClient (beaconNodeURI (init Map.empty argsShortKey)))
       = Inr (SyncStatusResponse False)"
    "NewRedisCache okDeps (redisURI (init Map.empty argsShortKey)) = Inr (RedisHandle 0)"
    by (simp_all add: concrete_defs)
  have b': "Decode okDeps (secretKey (init Map.empty argsShortKey)) = Inr [1]"
    "SecretKeyFromBytes okDeps [1] = Inl ''invalid key length''"
    by (simp_all add: concrete_defs)
  from key_loading_two_failure_points [OF a] a'
  have ra: "last (trace (Run testConsts okDeps (init Map.empty argsNotHex)))
       = Fatal ''incorrect secret key provided'' [] (Some ''hex string without 0x prefix'')
   \<and> filter isSecretKeyFromBytes (trace (Run testConsts okDeps (init Map.empty argsNotHex)))
       = []"
    by blast
  from key_loading_two_failure_points [OF b] b'
  have rb: "last (trace (Run testConsts okDeps (init Map.empty argsShortKey)))
       = Fatal ''incorrect builder API secret key provided'' [] (Some ''invalid key length'')
   \<and> filter isNewRelayAPI (trace (Run testConsts okDeps (init Map.empty argsShortKey))) = []"
    by blast
  from a a' b b' ra rb show ?thesis by blast
qed

text \<open>
  Claim C9. When \<^verbatim>\<open>--secret-key\<close> is not given, the variable holds the default, the empty
  string, and decoding it gives the error "empty hex string". Parsing does not fail for
  it: a command line that passes the exclusive-group check is run. The run never gets
  past the decode step (no BLS validation, no serving), and when the identity is resolved,
  the sync check succeeds and Redis connects, it ends exactly there, with the message of
  line 112, after both.
\<close>

theorem absent_secret_key_fails_at_decode:
  assumes "arg_secret_key a = None"
  shows "secretKey (init env a) = []
    \<and> hexutil_Decode (secretKey (init env a)) = Inl ''empty hex string''
    \<and> (validateFlagGroups a \<longrightarrow> outcome (startup c d env a) \<noteq> UsageError)
    \<and> (Decode d = hexutil_Decode \<longrightarrow>
          filter isSecretKeyFromBytes (trace (startup c d env a)) = []
          \<and> outcome (startup c d env a) \<noteq> Serving)
    \<and> (Decode d = hexutil_Decode \<and> validateFlagGroups a
        \<and> genesisForkVersionHex c (init env a) = Some gfv
        \<and> SyncStatus d (ProdBeaconClient (beaconNodeURI (init env a))) = Inr st
        \<and> NewRedisCache d (redisURI (init env a)) = Inr redis \<longrightarrow>
        startup c d env a =
          \<lparr> trace =
              [LogSetup (logJSON (init env a)) (logLevel (init env a)),
               Infof ''boost-relay %s'' [Version c],
               Infof ''Using genesis fork version: %s'' [gfv],
               Infof ''Using beacon endpoint: %s'' [beaconNodeURI (init env a)],
               CallNewProdBeaconClient (beaconNodeURI (init env a)),
               CallSyncStatus (ProdBeaconClient (beaconNodeURI (init env a))),
               CallNewRedisCache (redisURI (init env a)),
               Infof ''Connected to Redis at %s'' [redisURI (init env a)],
               CallNewProdProposerDatastore redis,
               CallDecode [],
               Fatal ''incorrect secret key provided'' [] (Some ''empty hex string'')],
            outcome = FatalExit \<rparr>)"
proof -
  have k: "secretKey (init env a) = []"
    using assms by (simp add: init_def flagVar_def)
  have "outcome (startup c d env a) \<noteq> UsageError" if "validateFlagGroups a"
    using that Run_not_UsageError by (simp add: startup_def)
  moreover have "filter isSecretKeyFromBytes (trace (startup c d env a)) = []
          \<and> outcome (startup c d env a) \<noteq> Serving" if "Decode d = hexutil_Decode"
    using that k
    by (simp add: startup_def Run_defs hexutil_Decode_empty split: option.splits sum.splits)
  moreover have "startup c d env a =
          \<lparr> trace =
              [LogSetup (logJSON (init env a)) (logLevel (init env a)),
               Infof ''boost-relay %s'' [Version c],
               Infof ''Using genesis fork version: %s'' [gfv],
               Infof ''Using beacon endpoint: %s'' [beaconNodeURI (init env a)],
               CallNewProdBeaconClient (beaconNodeURI (init env a)),
               CallSyncStatus (ProdBeaconClient (beaconNodeURI (init env a))),
               CallNewRedisCache (redisURI (init env a)),
               Infof ''Connected to Redis at %s'' [redisURI (init env a)],
               CallNewProdProposerDatastore redis,
               CallDecode [],
               Fatal ''incorrect secret key provided'' [] (Some ''empty hex string'')],
            outcome = FatalExit \<rparr>"
    if "Decode d = hexutil_Decode" "validateFlagGroups a"
       "genesisForkVersionHex c (init env a) = Some gfv"
       "SyncStatus d (ProdBeaconClient (beaconNodeURI (init env a))) = Inr st"
       "NewRedisCache d (redisURI (init env a)) = Inr redis"
    using that k by (simp add: startup_def Run_defs hexutil_Decode_empty)
  ultimately show ?thesis
    using k by (simp add: hexutil_Decode_empty)
qed

text \<open>Claim C9, witness: \<^verbatim>\<open>--mainnet\<close> alone, with every collaborator up.\<close>

theorem absent_secret_key_fails_at_decode_witness:
  "arg_secret_key argsNoKey = None
   \<and> Decode okDeps = hexutil_Decode
   \<and> validateFlagGroups argsNoKey
   \<and> genesisForkVersionHex testConsts (init Map.empty argsNoKey) = Some ''0x00000000''
   \<and> SyncStatus okDeps (ProdBeaconClient (beaconNodeURI (init Map.empty argsNoKey)))
       = Inr (SyncStatusResponse False)
   \<and> NewRedisCache okDeps (redisURI (init Map.empty argsNoKey)) = Inr (RedisHandle 0)
   \<and> outcome (startup testConsts okDeps Map.empty argsNoKey) = FatalExit
   \<and> last (trace (startup testConsts okDeps Map.empty argsNoKey))
       = Fatal ''incorrect secret key provided'' [] (Some ''empty hex string'')
   \<and> filter isDependencyCall (trace (startup testConsts okDeps Map.empty argsNoKey))
       = [CallNewProdBeaconClient [], CallSyncStatus (ProdBeaconClient []),
          CallNewRedisCache ''localhost:6379'',
          CallNewProdProposerDatastore (RedisHandle 0)]"
proof -
  have h0: "arg_secret_key argsNoKey = None"
    by (simp add: argsNoKey_def noArgs_def)
  have h: "Decode okDeps = hexutil_Decode" "validateFlagGroups argsNoKey"
    "genesisForkVersionHex testConsts (init Map.empty argsNoKey) = Some ''0x00000000''"
    "SyncStatus okDeps (ProdBeaconClient (beaconNodeURI (init Map.empty argsNoKey)))
       = Inr (SyncStatusResponse False)"
    "NewRedisCache okDeps (redisURI (init Map.empty argsNoKey)) = Inr (RedisHandle 0)"
    by (simp_all add: concrete_defs)
  have u: "beaconNodeURI (init Map.empty argsNoKey) = []"
    "redisURI (init Map.empty argsNoKey) = ''localhost:6379''"
    by (simp_all add: concrete_defs)
  from absent_secret_key_fails_at_decode
         [OF h0, where d = okDeps and c = testConsts and env = Map.empty
           and gfv = "''0x00000000''" and st = "SyncStatusResponse False"
           and redis = "RedisHandle 0"] h
  have "startup testConsts okDeps Map.empty argsNoKey =
          \<lparr> trace =
              [LogSetup (logJSON (init Map.empty argsNoKey)) (logLevel (init Map.empty argsNoKey)),
               Infof ''boost-relay %s'' [Version testConsts],
               Infof ''Using genesis fork version: %s'' [''0x00000000''],
               Infof ''Using beacon endpoint: %s'' [beaconNodeURI (init Map.empty argsNoKey)],
               CallNewProdBeaconClient (beaconNodeURI (init Map.empty argsNoKey)),
               CallSyncStatus (ProdBeaconClient (beaconNodeURI (init Map.empty argsNoKey))),
               CallNewRedisCache (redisURI (init Map.empty argsNoKey)),
               Infof ''Connected to Redis at %s'' [redisURI (init Map.empty argsNoKey)],
               CallNewProdProposerDatastore (RedisHandle 0),
               CallDecode [],
               Fatal ''incorrect secret key provided'' [] (Some ''empty hex string'')],
            outcome = FatalExit \<rparr>"
    by blast
  then have "outcome (startup testConsts okDeps Map.empty argsNoKey) = FatalExit
   \<and> last (trace (startup testConsts okDeps Map.empty argsNoKey))
       = Fatal ''incorrect secret key provided'' [] (Some ''empty hex string'')
   \<and> filter isDependencyCall (trace (startup testConsts okDeps Map.empty argsNoKey))
       = [CallNewProdBeaconClient [], CallSyncStatus (ProdBeaconClient []),
          CallNewRedisCache ''localhost:6379'',
          CallNewProdProposerDatastore (RedisHandle 0)]"
    by (simp add: u)
  with h0 h show ?thesis by blast
qed

subsection \<open>Service options and serving\<close>

text \<open>
  Claim C7, as the code has it. The claim says that for every integer \<open>n\<close> given with
  \<^verbatim>\<open>--getheader-wait-ms\<close> the wait duration in the options is \<open>n\<close> milliseconds. Line 126
  multiplies two 64-bit values, and a duration counts nanoseconds, so this holds when
  \<open>n\<close> times 1000000 fits: for \<open>n\<close> from -9223372036854 to 9223372036854, the duration in
  the options built by lines 119-128, and in every options value handed to the service
  constructor, is \<open>n\<close> times 1000000 nanoseconds, whether \<open>n\<close> was given with the flag or
  is the default 500.
\<close>

theorem wait_duration_in_milliseconds:
  assumes "arg_getheader_wait_ms a = Some n \<or> (arg_getheader_wait_ms a = None \<and> n = 500)"
    and "- 9223372036854 \<le> sint n" and "sint n \<le> 9223372036854"
  shows "getHeaderWaitTimeMs (init env a) = n
    \<and> sint (GetHeaderWaitTime (opts (init env a) bc ds gfv sk)) = sint n * 1000000
    \<and> (\<forall>os \<in> set (optsPassed (trace (startup c d env a))).
          sint (GetHeaderWaitTime os) = sint n * 1000000)"
proof -
  have n: "getHeaderWaitTimeMs (init env a) = n"
    by (rule init_wait [OF assms(1)])
  have ms: "sint (n * Millisecond) = sint n * 1000000"
    by (rule sint_times_Millisecond [OF assms(2,3)])
  have "sint (GetHeaderWaitTime os) = sint n * 1000000"
    if "os \<in> set (optsPassed (trace (startup c d env a)))" for os
  proof (cases "validateFlagGroups a")
    case True
    with that have "os \<in> set (optsPassed (trace (Run c d (init env a))))"
      by (simp add: startup_def)
    from Run_optsPassed [OF this] n ms show ?thesis
      by (auto simp add: opts_def)
  next
    case False
    with that show ?thesis by (simp add: startup_def)
  qed
  with n ms show ?thesis by (simp add: opts_def)
qed

text \<open>
  Claim C7, witness: the default. Without the flag the options handed to the service
  constructor carry 500000000 nanoseconds.
\<close>

theorem wait_duration_in_milliseconds_witness:
  "arg_getheader_wait_ms argsMainnet = None
   \<and> - 9223372036854 \<le> sint (500 :: int64) \<and> sint (500 :: int64) \<le> 9223372036854
   \<and> getHeaderWaitTimeMs (init Map.empty argsMainnet) = 500
   \<and> map GetHeaderWaitTime
        (optsPassed (trace (startup testConsts okDeps Map.empty argsMainnet))) = [500000000]
   \<and> sint (GetHeaderWaitTime
        (opts (init Map.empty argsMainnet) (ProdBeaconClient [])
           (ProdProposerDatastore (RedisHandle 0)) ''0x00000000'' (BlsSecretKey 0)))
       = 500 * 1000000"
proof -
  have h1: "arg_getheader_wait_ms argsMainnet = None \<and> (500 :: int64) = 500"
    by (simp add: argsMainnet_def noArgs_def)
  have h2: "- 9223372036854 \<le> sint (500 :: int64)" "sint (500 :: int64) \<le> 9223372036854"
    by simp_all
  have o: "map GetHeaderWaitTime
        (optsPassed (trace (startup testConsts okDeps Map.empty argsMainnet))) = [500000000]"
    by (simp add: concrete_defs Run_defs Millisecond_def)
  from wait_duration_in_milliseconds
         [OF disjI2 [OF h1] h2, where env = Map.empty and bc = "ProdBeaconClient []"
           and ds = "ProdProposerDatastore (RedisHandle 0)" and gfv = "''0x00000000''"
           and sk = "BlsSecretKey 0" and c = testConsts and d = okDeps]
  have "getHeaderWaitTimeMs (init Map.empty argsMainnet) = 500
    \<and> sint (GetHeaderWaitTime
        (opts (init Map.empty argsMainnet) (ProdBeaconClient [])
           (ProdProposerDatastore (RedisHandle 0)) ''0x00000000'' (BlsSecretKey 0)))
       = 500 * 1000000"
    by simp
  with h1 h2 o show ?thesis by blast
qed

text \<open>
  Claim C7, counterexample: \<^verbatim>\<open>--getheader-wait-ms 9223372036855\<close>. The product wraps, and
  the options handed to the service constructor carry a negative duration, not
  9223372036855 milliseconds.
\<close>

theorem wait_duration_wraps_counterexample:
  "arg_getheader_wait_ms argsLongWait = Some 9223372036855
   \<and> map GetHeaderWaitTime
        (optsPassed (trace (startup testConsts okDeps Map.empty argsLongWait)))
       = [9223372036855 * Millisecond]
   \<and> sint (9223372036855 * Millisecond :: Duration) = - 9223372036854551616
   \<and> sint (9223372036855 * Millisecond :: Duration) \<noteq> 9223372036855 * 1000000"
proof -
  have s: "sint (9223372036855 * Millisecond :: Duration) = - 9223372036854551616"
    by (simp add: Millisecond_def)
  have o: "map GetHeaderWaitTime
        (optsPassed (trace (startup testConsts okDeps Map.empty argsLongWait)))
       = [9223372036855 * Millisecond]"
    by (simp add: concrete_defs Run_defs)
  have a: "arg_getheader_wait_ms argsLongWait = Some 9223372036855"
    by (simp add: argsLongWait_def)
  from s o a show ?thesis by simp
qed

text \<open>
  Claim C8. In a run where every stage succeeds and the server's \<^verbatim>\<open>StartServer\<close> returns,
  whatever it returns, an error or nil, the process ends with the fatal call of line 138
  right after the call. No run returns from \<^verbatim>\<open>Run\<close>: a run that does not end in a fatal exit
  is one whose \<^verbatim>\<open>StartServer\<close> call has not returned.
\<close>

theorem serve_return_is_fatal:
  assumes "genesisForkVersionHex c g = Some gfv"
    and "SyncStatus d (ProdBeaconClient (beaconNodeURI g)) = Inr st"
    and "NewRedisCache d (redisURI g) = Inr redis"
    and "Decode d (secretKey g) = Inr b"
    and "SecretKeyFromBytes d b = Inr sk"
    and "NewRelayAPI d (opts g (ProdBeaconClient (beaconNodeURI g))
           (ProdProposerDatastore redis) gfv sk) = Inr srv"
    and "StartServer d srv = Some r"
  shows "outcome (Run c d g) = FatalExit
         \<and> last (trace (Run c d g)) = FatalValue r
         \<and> last (butlast (trace (Run c d g))) = CallStartServer srv
         \<and> (\<forall>d'. outcome (Run c d' g) = FatalExit
               \<or> (outcome (Run c d' g) = Serving
                   \<and> (\<exists>srv'. StartServer d' srv' = None
                         \<and> last (trace (Run c d' g)) = CallStartServer srv')))"
proof -
  have "outcome (Run c d' g) = FatalExit
        \<or> (outcome (Run c d' g) = Serving
            \<and> (\<exists>srv'. StartServer d' srv' = None
                  \<and> last (trace (Run c d' g)) = CallStartServer srv'))" for d'
    by (simp add: Run_defs split: option.splits sum.splits)
  moreover have "outcome (Run c d g) = FatalExit
         \<and> last (trace (Run c d g)) = FatalValue r
         \<and> last (butlast (trace (Run c d g))) = CallStartServer srv"
    using assms by (simp add: Run_defs)
  ultimately show ?thesis by blast
qed

text \<open>Claim C8, witness: every stage succeeds and the server returns nil.\<close>

theorem serve_return_is_fatal_witness:
  "genesisForkVersionHex testConsts (init Map.empty argsMainnet) = Some ''0x00000000''
   \<and> StartServer okDeps (RelayService 0) = Some None
   \<and> outcome (Run testConsts okDeps (init Map.empty argsMainnet)) = FatalExit
   \<and> last (trace (Run testConsts okDeps (init Map.empty argsMainnet))) = FatalValue None
   \<and> last (butlast (trace (Run testConsts okDeps (init Map.empty argsMainnet))))
       = CallStartServer (RelayService 0)"
proof -
  have h: "genesisForkVersionHex testConsts (init Map.empty argsMainnet) = Some ''0x00000000''"
    "SyncStatus okDeps (ProdBeaconClient (beaconNodeURI (init Map.empty argsMainnet)))
       = Inr (SyncStatusResponse False)"
    "NewRedisCache okDeps (redisURI (init Map.empty argsMainnet)) = Inr (RedisHandle 0)"
    "Decode okDeps (secretKey (init Map.empty argsMainnet)) =
       Inr [47, 193, 42, 231, 65, 242, 151, 1, 248, 227, 15, 93, 230, 53, 7, 102,
            192, 32, 203, 128, 118, 138, 15, 240, 30, 104, 56, 255, 210, 67, 30, 17]"
    "SecretKeyFromBytes okDeps
       [47, 193, 42, 231, 65, 242, 151, 1, 248, 227, 15, 93, 230, 53, 7, 102,
        192, 32, 203, 128, 118, 138, 15, 240, 30, 104, 56, 255, 210, 67, 30, 17]
       = Inr (BlsSecretKey 0)"
    "NewRelayAPI okDeps
       (opts (init Map.empty argsMainnet)
          (ProdBeaconClient (beaconNodeURI (init Map.empty argsMainnet)))
          (ProdProposerDatastore (RedisHandle 0)) ''0x00000000'' (BlsSecretKey 0))
       = Inr (RelayService 0)"
    "StartServer okDeps (RelayService 0) = Some None"
    by (simp_all add: concrete_defs)
  from serve_return_is_fatal [OF h] h(1,7) show ?thesis by blast
qed

end
